theory Spec2Isabelle
  imports Main "HOL-Library.Word" "HOL-Library.Sublist"
begin

unbundle bit_operations_syntax

section \<open>Thorlabs CHROLIS device adapter: data model\<close>

text \<open>
  The model follows \<^verbatim>\<open>DeviceAdapters/ThorlabsCHROLIS/ThorlabsChrolis.cpp\<close>.
  \<^verbatim>\<open>ViBoolean\<close> and \<^verbatim>\<open>ViUInt16\<close> are the VISA 16-bit unsigned types,
  \<^verbatim>\<open>ViUInt32\<close> the 32-bit one and \<^verbatim>\<open>std::uint8_t\<close> is \<^verbatim>\<open>unsigned char\<close>.
  A \<^verbatim>\<open>std::array<T, NUM_LEDS>\<close> is a list whose length is \<open>NUM_LEDS\<close>; a \<^verbatim>\<open>long\<close>
  or \<^verbatim>\<open>int\<close> whose value stays far from the type's bounds is an \<open>int\<close>.
  Member variables lose their trailing underscore (\<^verbatim>\<open>ledStates_\<close> is \<open>ledStates\<close>),
  which a constant's name cannot end with.
\<close>

type_synonym ViBoolean = "16 word"
type_synonym ViUInt16 = "16 word"
type_synonym ViUInt32 = "32 word"
type_synonym uint8_t = "8 word"

definition NUM_LEDS :: nat where
  "NUM_LEDS = 6"

text \<open>
  Return codes. The header that gives the codes their numbers is not part of the
  sources; the adapter only compares a code with \<^verbatim>\<open>0\<close> (\<open>DEVICE_OK\<close>) and with
  \<^verbatim>\<open>ERR_CHROLIS_NOT_AVAIL\<close>, so the codes are the constructors of a datatype and
  every other non-zero code of the instrument is an \<open>INSTR_ERROR\<close>.
\<close>

datatype errcode =
    DEVICE_OK
  | DEVICE_ERR
  | ERR_HUB_NOT_AVAILABLE
  | ERR_CHROLIS_NOT_AVAIL
  | ERR_PARAM_NOT_VALID
  | INSTR_ERROR int

subsection \<open>Bitmask codec (lines 61-78)\<close>

definition EncodeLEDStatesInBits :: "ViBoolean list \<Rightarrow> uint8_t" where
  "EncodeLEDStatesInBits states =
     fold (\<lambda>i ret.
            let state = (states ! i \<noteq> 0)
            in ret OR word_of_int (push_bit i (if state then 1 else 0)))
          [0..<NUM_LEDS] 0"

definition DecodeLEDStatesFromBits :: "uint8_t \<Rightarrow> ViBoolean list" where
  "DecodeLEDStatesFromBits bits =
     fold (\<lambda>i ret. ret[i := (if uint bits AND push_bit i 1 \<noteq> 0 then 1 else 0)])
          [0..<NUM_LEDS] (replicate NUM_LEDS 0)"

subsection \<open>Text written to a stream and handed to the host\<close>

text \<open>
  \<^verbatim>\<open>std::to_string\<close> and \<^verbatim>\<open>operator<<\<close> for the integer types print decimal
  digits. \<^verbatim>\<open>operator<<\<close> for \<^verbatim>\<open>unsigned char\<close> (hence for \<^verbatim>\<open>std::uint8_t\<close>)
  writes the one character with that code. The host receives \<^verbatim>\<open>os.str().c_str()\<close>, a
  C string, which ends before the first NUL.
\<close>

fun digits :: "nat \<Rightarrow> string" where
  "digits n = (if n < 10 then [char_of (48 + n)]
               else digits (n div 10) @ [char_of (48 + n mod 10)])"

declare digits.simps [simp del]

definition to_string :: "int \<Rightarrow> string" where
  "to_string i = (if i < 0 then CHR ''-'' # digits (nat (- i)) else digits (nat i))"

definition put_long :: "int \<Rightarrow> string" where
  "put_long v = to_string v"

definition put_ushort :: "16 word \<Rightarrow> string" where
  "put_ushort v = to_string (uint v)"

definition put_uchar :: "uint8_t \<Rightarrow> string" where
  "put_uchar v = [char_of (unat v)]"

definition c_str :: "string \<Rightarrow> string" where
  "c_str s = takeWhile (\<lambda>c. c \<noteq> CHR 0x00) s"

subsection \<open>What the host and the instrument observe\<close>

datatype device = Hub | Shutter | StateDevice

datatype fcall =
    CallIsDeviceConnected
  | CallGetDeviceStatus
  | CallVerifyLEDEnableStatesWithLock
  | CallGetLEDEnableStates
  | CallSetLEDEnableStates "ViBoolean list"
  | CallGetSingleLEDEnableState nat
  | CallSetSingleLEDEnableState nat ViBoolean
  | CallGetSingleLEDBrightnessState nat
  | CallSetSingleLEDBrightnessState nat ViUInt16
  | CallGetShutterState
  | CallSetShutterState bool

fun is_write :: "fcall \<Rightarrow> bool" where
  "is_write (CallSetLEDEnableStates _) = True"
| "is_write (CallSetSingleLEDEnableState _ _) = True"
| "is_write (CallSetSingleLEDBrightnessState _ _) = True"
| "is_write (CallSetShutterState _) = True"
| "is_write _ = False"

text \<open>
  \<open>changed\<close> lists the \<^verbatim>\<open>OnPropertyChanged(name, value)\<close> notifications in the order
  they were sent, with the device that sent them; \<open>logged\<close> the \<^verbatim>\<open>LogMessage\<close> lines;
  \<open>hwcalls\<close> the calls made on the hub's \<^verbatim>\<open>ChrolisDevice\<close>.
\<close>

record effects =
  changed :: "(device \<times> string \<times> string) list"
  logged :: "string list"
  hwcalls :: "fcall list"

definition no_effects :: effects where
  "no_effects = \<lparr>changed = [], logged = [], hwcalls = []\<rparr>"

definition notify :: "device \<Rightarrow> string \<Rightarrow> string \<Rightarrow> effects \<Rightarrow> effects" where
  "notify dev name val e = e\<lparr>changed := changed e @ [(dev, c_str name, c_str val)]\<rparr>"

definition log_line :: "string \<Rightarrow> effects \<Rightarrow> effects" where
  "log_line m e = e\<lparr>logged := logged e @ [m]\<rparr>"

definition called :: "fcall \<Rightarrow> effects \<Rightarrow> effects" where
  "called c e = e\<lparr>hwcalls := hwcalls e @ [c]\<rparr>"

text \<open>
  The device facade \<^verbatim>\<open>ThorlabsChrolisDeviceWrapper\<close> is not part of the sources, so
  it is a parameter: \<open>'d\<close> is the state of the instrument and its wrapper, every call
  may change it, and a call with an output parameter receives what the caller's variable
  holds and returns what the variable holds afterwards.
\<close>

record 'd facade =
  IsDeviceConnected :: "'d \<Rightarrow> bool \<times> 'd"
  GetDeviceStatus :: "ViUInt32 \<Rightarrow> 'd \<Rightarrow> (errcode \<times> ViUInt32) \<times> 'd"
  VerifyLEDEnableStatesWithLock :: "'d \<Rightarrow> 'd"
  GetLEDEnableStates :: "ViBoolean list \<Rightarrow> 'd \<Rightarrow> (errcode \<times> ViBoolean list) \<times> 'd"
  SetLEDEnableStates :: "ViBoolean list \<Rightarrow> 'd \<Rightarrow> errcode \<times> 'd"
  GetSingleLEDEnableState :: "nat \<Rightarrow> ViBoolean \<Rightarrow> 'd \<Rightarrow> (errcode \<times> ViBoolean) \<times> 'd"
  SetSingleLEDEnableState :: "nat \<Rightarrow> ViBoolean \<Rightarrow> 'd \<Rightarrow> errcode \<times> 'd"
  GetSingleLEDBrightnessState :: "nat \<Rightarrow> ViUInt16 \<Rightarrow> 'd \<Rightarrow> (errcode \<times> ViUInt16) \<times> 'd"
  SetSingleLEDBrightnessState :: "nat \<Rightarrow> ViUInt16 \<Rightarrow> 'd \<Rightarrow> errcode \<times> 'd"
  GetShutterState :: "bool \<Rightarrow> 'd \<Rightarrow> (errcode \<times> bool) \<times> 'd"
  SetShutterState :: "bool \<Rightarrow> 'd \<Rightarrow> errcode \<times> 'd"

subsection \<open>The hub and its status monitor (lines 216-335)\<close>

record 'd ChrolisHub =
  ChrolisDevice :: 'd
  threadRunning :: bool
  currentDeviceStatusCode :: ViUInt32
  stateCallback :: "int \<Rightarrow> int \<Rightarrow> effects \<Rightarrow> effects"
  shutterCallback :: "int \<Rightarrow> int \<Rightarrow> effects \<Rightarrow> effects"

definition SetShutterCallback ::
  "(int \<Rightarrow> int \<Rightarrow> effects \<Rightarrow> effects) \<Rightarrow> 'd ChrolisHub \<Rightarrow> 'd ChrolisHub" where
  "SetShutterCallback func h = h\<lparr>shutterCallback := func\<rparr>"

definition SetStateCallback ::
  "(int \<Rightarrow> int \<Rightarrow> effects \<Rightarrow> effects) \<Rightarrow> 'd ChrolisHub \<Rightarrow> 'd ChrolisHub" where
  "SetStateCallback func h = h\<lparr>stateCallback := func\<rparr>"

text \<open>One \<^verbatim>\<open>if ((curStatus & (1 << k)) >= 1)\<close> block of lines 245-292.\<close>

definition add_condition :: "ViUInt32 \<Rightarrow> nat \<Rightarrow> string \<Rightarrow> string \<Rightarrow> string" where
  "add_condition curStatus k text message =
     (if curStatus AND push_bit k 1 \<ge> 1
      then (if length message > 0 then message @ '', '' else message) @ text
      else message)"

text \<open>Lines 235-297: the message built from \<^verbatim>\<open>curStatus\<close>, starting from the cleared string.\<close>

definition status_message :: "ViUInt32 \<Rightarrow> string" where
  "status_message curStatus =
     (if curStatus = 0 then ''No Error''
      else
        let message = (if curStatus AND push_bit 0 1 \<ge> 1 then ''Box is Open'' else '''');
            message = add_condition curStatus 1 ''LLG not Connected'' message;
            message = add_condition curStatus 2 ''Interlock is Open'' message;
            message = add_condition curStatus 3 ''Using Default Adjustment'' message;
            message = add_condition curStatus 4 ''Box Overheated'' message;
            message = add_condition curStatus 5 ''LED Overheated'' message;
            message = add_condition curStatus 6 ''Invalid Box Setup'' message
        in if length message = 0 then ''Unknown Status'' else message)"

text \<open>
  The handler that \<^verbatim>\<open>ChrolisStateDevice::Initialize\<close> installs in the state slot (lines
  456-477). \<^verbatim>\<open>MM::g_Keyword_State\<close> is the host framework's name of the state
  property.
\<close>

definition g_Keyword_State :: string where
  "g_Keyword_State = ''State''"

definition state_handler :: "int \<Rightarrow> int \<Rightarrow> effects \<Rightarrow> effects" where
  "state_handler ledNum state e =
     (let os = put_long (if ledNum = 0 then state else uint (word_of_int state :: ViBoolean))
      in if ledNum = 0 then notify StateDevice g_Keyword_State os e
         else if 1 \<le> ledNum \<and> ledNum \<le> 6
           then notify StateDevice (''LED Enable State '' @ to_string ledNum) os e
         else e)"

text \<open>
  The handler that \<^verbatim>\<open>ChrolisShutter::Initialize\<close> installs in the shutter slot (lines
  366-371), and the empty handler that both \<^verbatim>\<open>Shutdown\<close> methods install.
\<close>

definition shutter_handler :: "int \<Rightarrow> int \<Rightarrow> effects \<Rightarrow> effects" where
  "shutter_handler ledNum state e = e"

definition empty_handler :: "int \<Rightarrow> int \<Rightarrow> effects \<Rightarrow> effects" where
  "empty_handler ledNum state e = e"

text \<open>
  One pass through the body of the \<^verbatim>\<open>while\<close> loop of
  \<^verbatim>\<open>ChrolisHub::StatusChangedPollingThread\<close> (lines 222-323), on the thread's
  variable \<^verbatim>\<open>tempStatus\<close>, the hub and the effects so far. The first component of the
  result tells whether the thread executed \<^verbatim>\<open>return\<close>. The pause
  \<^verbatim>\<open>Sleep(500)\<close> has no effect on the state and is left out.
\<close>

definition StatusChangedPollingThread_body ::
  "'d facade \<Rightarrow> ViUInt32 \<times> 'd ChrolisHub \<times> effects \<Rightarrow> bool \<times> ViUInt32 \<times> 'd ChrolisHub \<times> effects" where
  "StatusChangedPollingThread_body f = (\<lambda>(tempStatus, h, e).
     let (connected, d) = IsDeviceConnected f (ChrolisDevice h);
         e = called CallIsDeviceConnected e;
         h = h\<lparr>ChrolisDevice := d\<rparr>
     in if connected then
          let ((err, tempStatus), d) = GetDeviceStatus f tempStatus d;
              e = called CallGetDeviceStatus e;
              h = h\<lparr>ChrolisDevice := d\<rparr>
          in if err \<noteq> DEVICE_OK then
               (True, tempStatus, h\<lparr>threadRunning := False\<rparr>, log_line ''Error Getting Status'' e)
             else
               let curStatus = currentDeviceStatusCode h;
                   statusChanged = (curStatus \<noteq> tempStatus);
                   h = h\<lparr>currentDeviceStatusCode := tempStatus\<rparr>;
                   message = status_message curStatus;
                   (h, e) =
                     (if statusChanged then
                        (if curStatus \<noteq> 0 then
                           let tempEnableStates = replicate NUM_LEDS 0;
                               d = VerifyLEDEnableStatesWithLock f d;
                               e = called CallVerifyLEDEnableStatesWithLock e;
                               ((err, tempEnableStates), d) = GetLEDEnableStates f tempEnableStates d;
                               e = called CallGetLEDEnableStates e;
                               h = h\<lparr>ChrolisDevice := d\<rparr>
                           in if err \<noteq> DEVICE_OK then
                                (h, log_line ''Error getting info from chrolis'' e)
                              else
                                let e = stateCallback h 0 (uint (EncodeLEDStatesInBits tempEnableStates)) e;
                                    e = stateCallback h 1 (uint (tempEnableStates ! 0)) e;
                                    e = stateCallback h 2 (uint (tempEnableStates ! 1)) e;
                                    e = stateCallback h 3 (uint (tempEnableStates ! 2)) e;
                                    e = stateCallback h 4 (uint (tempEnableStates ! 3)) e;
                                    e = stateCallback h 5 (uint (tempEnableStates ! 4)) e;
                                    e = stateCallback h 6 (uint (tempEnableStates ! 5)) e
                                in (h, e)
                         else (h, e))
                      else (h, e))
               in (False, tempStatus, h, notify Hub ''Device Status'' message e)
        else (False, tempStatus, h, e))"

text \<open>
  The loop itself runs for as long as \<^verbatim>\<open>threadRunning\<close> holds, which may be forever;
  \<open>n\<close> bounds the number of passes, and \<open>None\<close> says that the thread is still running
  after \<open>n\<close> of them.
\<close>

fun StatusChangedPollingThread_loop ::
  "nat \<Rightarrow> 'd facade \<Rightarrow> ViUInt32 \<times> 'd ChrolisHub \<times> effects \<Rightarrow> (ViUInt32 \<times> 'd ChrolisHub \<times> effects) option" where
  "StatusChangedPollingThread_loop 0 f (tempStatus, h, e) =
     (if threadRunning h then None else Some (tempStatus, h, e))"
| "StatusChangedPollingThread_loop (Suc n) f (tempStatus, h, e) =
     (if threadRunning h then
        (case StatusChangedPollingThread_body f (tempStatus, h, e) of
           (returned, s) \<Rightarrow> if returned then Some s else StatusChangedPollingThread_loop n f s)
      else Some (tempStatus, h, e))"

definition StatusChangedPollingThread ::
  "nat \<Rightarrow> 'd facade \<Rightarrow> 'd ChrolisHub \<times> effects \<Rightarrow> ('d ChrolisHub \<times> effects) option" where
  "StatusChangedPollingThread n f = (\<lambda>(h, e).
     map_option snd (StatusChangedPollingThread_loop n f (0, h, e)))"

subsection \<open>The shutter and the state device\<close>

text \<open>
  A peripheral device sees the hub through \<^verbatim>\<open>GetParentHub()\<close>, which may return a
  null pointer (\<open>None\<close>); \<open>out\<close> collects what the host and the instrument observe.
\<close>

record 'd peripheral =
  parentHub :: "'d ChrolisHub option"
  out :: effects

record 'd ChrolisStateDevice = "'d peripheral" +
  ledStates :: "ViBoolean list"
  ledBrightnesses :: "ViUInt16 list"

definition LogMessage :: "string \<Rightarrow> ('d, 'z) peripheral_scheme \<Rightarrow> ('d, 'z) peripheral_scheme" where
  "LogMessage m s = s\<lparr>out := log_line m (out s)\<rparr>"

definition OnPropertyChanged ::
  "device \<Rightarrow> string \<Rightarrow> string \<Rightarrow> ('d, 'z) peripheral_scheme \<Rightarrow> ('d, 'z) peripheral_scheme" where
  "OnPropertyChanged this name val s = s\<lparr>out := notify this name val (out s)\<rparr>"

text \<open>
  \<open>hw c h d s\<close> records that the call \<open>c\<close> was made on \<^verbatim>\<open>pHub->ChrolisDevice\<close> and
  left the instrument in state \<open>d\<close>.
\<close>

definition hw ::
  "fcall \<Rightarrow> 'd ChrolisHub \<Rightarrow> 'd \<Rightarrow> ('d, 'z) peripheral_scheme \<Rightarrow> ('d, 'z) peripheral_scheme" where
  "hw c h d s = s\<lparr>parentHub := Some (h\<lparr>ChrolisDevice := d\<rparr>), out := called c (out s)\<rparr>"

text \<open>
  An integer property of the host framework: its name and the \<^verbatim>\<open>long\<close> it holds.
  \<^verbatim>\<open>Get(double&)\<close> yields the same number as a double, and the casts
  \<^verbatim>\<open>(ViBoolean)val\<close> and \<^verbatim>\<open>(ViUInt16)val\<close> keep it when it lies in 0..65535, which
  the limits declared for these properties guarantee.
\<close>

record PropertyBase =
  pname :: string
  pvalue :: int

datatype ActionType =
    NoAction | BeforeGet | AfterSet | IsSequenceable | AfterLoadSequence | StartSequence | StopSequence

text \<open>\<^verbatim>\<open>ChrolisShutter\<close>, lines 347-434.\<close>

definition ChrolisShutter_Initialize :: "'d facade \<Rightarrow> 'd peripheral \<Rightarrow> errcode \<times> 'd peripheral" where
  "ChrolisShutter_Initialize f s =
     (case parentHub s of
        None \<Rightarrow> (ERR_HUB_NOT_AVAILABLE, LogMessage ''No Hub'' s)
      | Some h \<Rightarrow>
          let (connected, d) = IsDeviceConnected f (ChrolisDevice h);
              s = hw CallIsDeviceConnected h d s;
              (d, s) =
                (if connected then
                   let (err, d) = SetShutterState f False d;
                       s = hw (CallSetShutterState False) h d s
                   in (d, if err \<noteq> DEVICE_OK then LogMessage ''Could not close shutter on init'' s else s)
                 else (d, s));
              s = s\<lparr>parentHub := Some (SetShutterCallback shutter_handler (h\<lparr>ChrolisDevice := d\<rparr>))\<rparr>
          in (DEVICE_OK, s))"

definition ChrolisShutter_Shutdown :: "'d peripheral \<Rightarrow> errcode \<times> 'd peripheral" where
  "ChrolisShutter_Shutdown s =
     (case parentHub s of
        None \<Rightarrow> (DEVICE_OK, s)
      | Some h \<Rightarrow> (DEVICE_OK, s\<lparr>parentHub := Some (SetShutterCallback empty_handler h)\<rparr>))"

definition SetOpen :: "'d facade \<Rightarrow> bool \<Rightarrow> 'd peripheral \<Rightarrow> errcode \<times> 'd peripheral" where
  "SetOpen f open s =
     (case parentHub s of
        None \<Rightarrow> (ERR_HUB_NOT_AVAILABLE, LogMessage ''Hub not available'' s)
      | Some h \<Rightarrow>
          let (connected, d) = IsDeviceConnected f (ChrolisDevice h);
              s = hw CallIsDeviceConnected h d s
          in if \<not> connected then (ERR_CHROLIS_NOT_AVAIL, LogMessage ''CHROLIS not available'' s)
             else
               let (err, d) = SetShutterState f open d;
                   s = hw (CallSetShutterState open) h d s
               in if err \<noteq> DEVICE_OK then (err, LogMessage ''Error setting shutter state'' s)
                  else (DEVICE_OK, s))"

definition GetOpen :: "'d facade \<Rightarrow> bool \<Rightarrow> 'd peripheral \<Rightarrow> errcode \<times> bool \<times> 'd peripheral" where
  "GetOpen f open s =
     (case parentHub s of
        None \<Rightarrow> (ERR_HUB_NOT_AVAILABLE, open, LogMessage ''Hub not available'' s)
      | Some h \<Rightarrow>
          let (connected, d) = IsDeviceConnected f (ChrolisDevice h);
              s = hw CallIsDeviceConnected h d s
          in if \<not> connected then (ERR_CHROLIS_NOT_AVAIL, open, LogMessage ''CHROLIS not available'' s)
             else
               let ((err, open), d) = GetShutterState f open d;
                   s = hw CallGetShutterState h d s
               in (DEVICE_OK, open, s))"

text \<open>\<^verbatim>\<open>ChrolisStateDevice::OnState\<close>, lines 561-647: the aggregate enable mask.\<close>

definition OnState ::
  "'d facade \<Rightarrow> PropertyBase \<Rightarrow> ActionType \<Rightarrow> 'd ChrolisStateDevice
     \<Rightarrow> errcode \<times> PropertyBase \<times> 'd ChrolisStateDevice" where
  "OnState f pProp eAct s =
     (if eAct = BeforeGet then
        (case parentHub s of
           None \<Rightarrow> (ERR_HUB_NOT_AVAILABLE, pProp, LogMessage ''Hub not available'' s)
         | Some h \<Rightarrow>
             let (connected, d) = IsDeviceConnected f (ChrolisDevice h);
                 s = hw CallIsDeviceConnected h d s;
                 s = (if \<not> connected then LogMessage ''CHROLIS not available'' s else s);
                 ((err, states), d) = GetLEDEnableStates f (ledStates s) d;
                 s = hw CallGetLEDEnableStates h d s;
                 s = s\<lparr>ledStates := states\<rparr>;
                 s = (if err \<noteq> DEVICE_OK then LogMessage ''Error getting info from chrolis'' s else s)
             in (DEVICE_OK, pProp\<lparr>pvalue := uint (EncodeLEDStatesInBits (ledStates s))\<rparr>, s))
      else if eAct = AfterSet then
        let currentLEDState = EncodeLEDStatesInBits (ledStates s)
        in (case parentHub s of
              None \<Rightarrow>
                let s = LogMessage ''Hub not available'' s;
                    s = OnPropertyChanged StateDevice (pname pProp) (put_uchar currentLEDState) s
                in (ERR_HUB_NOT_AVAILABLE, pProp, s)
            | Some h \<Rightarrow>
                let (connected, d) = IsDeviceConnected f (ChrolisDevice h);
                    s = hw CallIsDeviceConnected h d s
                in if \<not> connected then
                     let s = LogMessage ''CHROLIS not available'' s;
                         s = OnPropertyChanged StateDevice (pname pProp) (put_uchar currentLEDState) s
                     in (ERR_CHROLIS_NOT_AVAIL, pProp, s)
                   else
                     let val = pvalue pProp
                     in if val \<ge> 2 ^ NUM_LEDS \<or> val < 0 then
                          let s = LogMessage ''Requested state out of bounds'' s;
                              s = OnPropertyChanged StateDevice (pname pProp) (put_uchar currentLEDState) s
                          in (ERR_PARAM_NOT_VALID, pProp, s)
                        else
                          let newStates = DecodeLEDStatesFromBits (word_of_int val);
                              (err, d) = SetLEDEnableStates f newStates d;
                              s = hw (CallSetLEDEnableStates newStates) h d s
                          in if err \<noteq> DEVICE_OK then
                               let s = LogMessage ''Error Setting LED state'' s
                               in if err \<noteq> ERR_CHROLIS_NOT_AVAIL then
                                    let ((err2, states), d) = GetLEDEnableStates f (ledStates s) d;
                                        s = hw CallGetLEDEnableStates h d s;
                                        s = s\<lparr>ledStates := states\<rparr>;
                                        s = (if err2 \<noteq> DEVICE_OK
                                             then LogMessage ''Error getting info from chrolis'' s else s);
                                        currentLEDState = EncodeLEDStatesInBits (ledStates s);
                                        s = OnPropertyChanged StateDevice (pname pProp) (put_uchar currentLEDState) s
                                    in (err, pProp, s)
                                  else (err, pProp, s)
                             else
                               let s = OnPropertyChanged StateDevice (pname pProp) (put_long val) s
                               in (DEVICE_OK, pProp, s))
      else (DEVICE_OK, pProp, s))"

text \<open>
  \<^verbatim>\<open>ChrolisStateDevice::OnEnableStateChange\<close>, lines 649-710: the enable flag of the
  channel \<open>ledIndex\<close>; \<^verbatim>\<open>*ledBeingControlled\<close> is \<open>ledStates s ! ledIndex\<close>.
\<close>

definition OnEnableStateChange ::
  "'d facade \<Rightarrow> PropertyBase \<Rightarrow> ActionType \<Rightarrow> nat \<Rightarrow> 'd ChrolisStateDevice
     \<Rightarrow> errcode \<times> PropertyBase \<times> 'd ChrolisStateDevice" where
  "OnEnableStateChange f pProp eAct ledIndex s =
     (if eAct = BeforeGet then
        (case parentHub s of
           None \<Rightarrow> (ERR_HUB_NOT_AVAILABLE, pProp, LogMessage ''Hub not available'' s)
         | Some h \<Rightarrow>
             let (connected, d) = IsDeviceConnected f (ChrolisDevice h);
                 s = hw CallIsDeviceConnected h d s;
                 s = (if \<not> connected then LogMessage ''CHROLIS not available'' s else s);
                 ((err, v), d) = GetSingleLEDEnableState f ledIndex (ledStates s ! ledIndex) d;
                 s = hw (CallGetSingleLEDEnableState ledIndex) h d s;
                 s = s\<lparr>ledStates := (ledStates s)[ledIndex := v]\<rparr>;
                 s = (if err \<noteq> DEVICE_OK then LogMessage ''Error getting info from chrolis'' s else s)
             in (DEVICE_OK, pProp\<lparr>pvalue := uint (ledStates s ! ledIndex)\<rparr>, s))
      else if eAct = AfterSet then
        let val = pvalue pProp
        in (case parentHub s of
              None \<Rightarrow>
                let s = LogMessage ''Hub not available'' s;
                    s = OnPropertyChanged StateDevice (pname pProp) (put_ushort (ledStates s ! ledIndex)) s
                in (ERR_HUB_NOT_AVAILABLE, pProp, s)
            | Some h \<Rightarrow>
                let (connected, d) = IsDeviceConnected f (ChrolisDevice h);
                    s = hw CallIsDeviceConnected h d s
                in if \<not> connected then
                     let s = LogMessage ''CHROLIS not available'' s;
                         s = OnPropertyChanged StateDevice (pname pProp) (put_ushort (ledStates s ! ledIndex)) s
                     in (ERR_CHROLIS_NOT_AVAIL, pProp, s)
                   else
                     let (err, d) = SetSingleLEDEnableState f ledIndex (word_of_int val) d;
                         s = hw (CallSetSingleLEDEnableState ledIndex (word_of_int val)) h d s
                     in if err \<noteq> DEVICE_OK then
                          let s = LogMessage ''Error Setting LED state'' s;
                              ((err2, v), d) = GetSingleLEDEnableState f ledIndex (ledStates s ! ledIndex) d;
                              s = hw (CallGetSingleLEDEnableState ledIndex) h d s;
                              s = s\<lparr>ledStates := (ledStates s)[ledIndex := v]\<rparr>;
                              s = OnPropertyChanged StateDevice (pname pProp) (put_ushort (ledStates s ! ledIndex)) s
                          in (err, pProp, s)
                        else
                          let s = s\<lparr>ledStates := (ledStates s)[ledIndex := word_of_int val]\<rparr>;
                              s = OnPropertyChanged StateDevice (pname pProp) (put_ushort (ledStates s ! ledIndex)) s
                          in (DEVICE_OK, pProp, s))
      else (DEVICE_OK, pProp, s))"

text \<open>
  \<^verbatim>\<open>ChrolisStateDevice::OnPowerChange\<close>, lines 712-772: the brightness of the channel
  \<open>ledIndex\<close>; \<^verbatim>\<open>*ledBeingControlled\<close> is \<open>ledBrightnesses s ! ledIndex\<close>.
\<close>

definition OnPowerChange ::
  "'d facade \<Rightarrow> PropertyBase \<Rightarrow> ActionType \<Rightarrow> nat \<Rightarrow> 'd ChrolisStateDevice
     \<Rightarrow> errcode \<times> PropertyBase \<times> 'd ChrolisStateDevice" where
  "OnPowerChange f pProp eAct ledIndex s =
     (if eAct = BeforeGet then
        (case parentHub s of
           None \<Rightarrow> (ERR_HUB_NOT_AVAILABLE, pProp, LogMessage ''Hub not available'' s)
         | Some h \<Rightarrow>
             let (connected, d) = IsDeviceConnected f (ChrolisDevice h);
                 s = hw CallIsDeviceConnected h d s;
                 s = (if \<not> connected then LogMessage ''CHROLIS not available'' s else s);
                 ((err, v), d) = GetSingleLEDBrightnessState f ledIndex (ledBrightnesses s ! ledIndex) d;
                 s = hw (CallGetSingleLEDBrightnessState ledIndex) h d s;
                 s = s\<lparr>ledBrightnesses := (ledBrightnesses s)[ledIndex := v]\<rparr>;
                 s = (if err \<noteq> DEVICE_OK then LogMessage ''Error getting info from chrolis'' s else s)
             in (DEVICE_OK, pProp\<lparr>pvalue := uint (ledBrightnesses s ! ledIndex)\<rparr>, s))
      else if eAct = AfterSet then
        let val = pvalue pProp
        in (case parentHub s of
              None \<Rightarrow>
                let s = LogMessage ''Hub not available'' s;
                    s = OnPropertyChanged StateDevice (pname pProp) (put_ushort (ledBrightnesses s ! ledIndex)) s
                in (ERR_HUB_NOT_AVAILABLE, pProp, s)
            | Some h \<Rightarrow>
                let (connected, d) = IsDeviceConnected f (ChrolisDevice h);
                    s = hw CallIsDeviceConnected h d s
                in if \<not> connected then
                     let s = LogMessage ''CHROLIS not available'' s;
                         s = OnPropertyChanged StateDevice (pname pProp) (put_ushort (ledBrightnesses s ! ledIndex)) s
                     in (ERR_CHROLIS_NOT_AVAIL, pProp, s)
                   else
                     let (err, d) = SetSingleLEDBrightnessState f ledIndex (word_of_int val) d;
                         s = hw (CallSetSingleLEDBrightnessState ledIndex (word_of_int val)) h d s
                     in if err \<noteq> DEVICE_OK then
                          let s = LogMessage ''Error Setting LED state'' s;
                              ((err2, v), d) = GetSingleLEDBrightnessState f ledIndex (ledBrightnesses s ! ledIndex) d;
                              s = hw (CallGetSingleLEDBrightnessState ledIndex) h d s;
                              s = s\<lparr>ledBrightnesses := (ledBrightnesses s)[ledIndex := v]\<rparr>;
                              s = OnPropertyChanged StateDevice (pname pProp) (put_ushort (ledBrightnesses s ! ledIndex)) s
                          in (err, pProp, s)
                        else
                          let s = s\<lparr>ledBrightnesses := (ledBrightnesses s)[ledIndex := word_of_int val]\<rparr>;
                              s = OnPropertyChanged StateDevice (pname pProp) (put_ushort (ledBrightnesses s ! ledIndex)) s
                          in (DEVICE_OK, pProp, s))
      else (DEVICE_OK, pProp, s))"

subsection \<open>A simulated instrument\<close>

text \<open>
  A small instrument on which the adapter can be run: it holds the hardware values, and two
  switches make its reads or its writes fail with a chosen code. A failing read leaves the
  caller's variable alone; a failing write leaves the hardware alone.
\<close>

record sim =
  sim_connected :: bool
  sim_status :: ViUInt32
  sim_enable :: "ViBoolean list"
  sim_brightness :: "ViUInt16 list"
  sim_shutter :: bool
  sim_read_fault :: errcode
  sim_write_fault :: errcode

definition sim_read :: "(sim \<Rightarrow> 'a) \<Rightarrow> 'a \<Rightarrow> sim \<Rightarrow> (errcode \<times> 'a) \<times> sim" where
  "sim_read get var d =
     (if sim_read_fault d = DEVICE_OK then ((DEVICE_OK, get d), d) else ((sim_read_fault d, var), d))"

definition sim_write :: "(sim \<Rightarrow> sim) \<Rightarrow> sim \<Rightarrow> errcode \<times> sim" where
  "sim_write put d =
     (if sim_write_fault d = DEVICE_OK then (DEVICE_OK, put d) else (sim_write_fault d, d))"

definition sim_facade :: "sim facade" where
  "sim_facade =
     \<lparr> IsDeviceConnected = (\<lambda>d. (sim_connected d, d)),
       GetDeviceStatus = sim_read sim_status,
       VerifyLEDEnableStatesWithLock = (\<lambda>d. d),
       GetLEDEnableStates = sim_read sim_enable,
       SetLEDEnableStates = (\<lambda>v. sim_write (\<lambda>d. d\<lparr>sim_enable := v\<rparr>)),
       GetSingleLEDEnableState = (\<lambda>i. sim_read (\<lambda>d. sim_enable d ! i)),
       SetSingleLEDEnableState = (\<lambda>i v. sim_write (\<lambda>d. d\<lparr>sim_enable := (sim_enable d)[i := v]\<rparr>)),
       GetSingleLEDBrightnessState = (\<lambda>i. sim_read (\<lambda>d. sim_brightness d ! i)),
       SetSingleLEDBrightnessState = (\<lambda>i v. sim_write (\<lambda>d. d\<lparr>sim_brightness := (sim_brightness d)[i := v]\<rparr>)),
       GetShutterState = sim_read sim_shutter,
       SetShutterState = (\<lambda>v. sim_write (\<lambda>d. d\<lparr>sim_shutter := v\<rparr>)) \<rparr>"

definition sim0 :: sim where
  "sim0 = \<lparr> sim_connected = True, sim_status = 0,
            sim_enable = [0, 0, 0, 0, 0, 0], sim_brightness = [0, 0, 0, 0, 0, 0],
            sim_shutter = False, sim_read_fault = DEVICE_OK, sim_write_fault = DEVICE_OK \<rparr>"

definition hub0 :: "sim ChrolisHub" where
  "hub0 = \<lparr> ChrolisDevice = sim0, threadRunning = True, currentDeviceStatusCode = 0,
            stateCallback = state_handler, shutterCallback = shutter_handler \<rparr>"

definition dev0 :: "sim ChrolisStateDevice" where
  "dev0 = \<lparr> parentHub = Some hub0, out = no_effects,
            ledStates = [0, 0, 0, 0, 0, 0], ledBrightnesses = [0, 0, 0, 0, 0, 0] \<rparr>"

section \<open>Properties\<close>

subsection \<open>Codec\<close>

lemma upt_NUM_LEDS: "[0..<NUM_LEDS] = [0, 1, 2, 3, 4, 5]"
  by (simp add: NUM_LEDS_def upt_rec)

lemma mask_test_is_bit: "(uint (bits :: uint8_t) AND push_bit i 1 \<noteq> 0) = bit bits i"
proof -
  have "bit (uint bits) i = (uint bits AND push_bit i 1 \<noteq> 0)"
    by (rule bit_iff_and_push_bit_not_eq_0)
  then show ?thesis
    unfolding bit_uint_iff using bit_imp_le_length [of bits i] by blast
qed

lemma Decode_explicit:
  "DecodeLEDStatesFromBits bits = map (\<lambda>i. if bit bits i then 1 else 0) [0, 1, 2, 3, 4, 5]"
  unfolding DecodeLEDStatesFromBits_def upt_NUM_LEDS mask_test_is_bit
  by (simp add: NUM_LEDS_def numeral_eq_Suc)

lemma shifted_flag: "(word_of_int (push_bit i (if b then 1 else 0)) :: uint8_t) = push_bit i (of_bool b)"
  by (simp add: push_bit_of_1)

lemma Encode_explicit:
  "EncodeLEDStatesInBits states =
     push_bit 0 (of_bool (states ! 0 \<noteq> 0)) OR push_bit 1 (of_bool (states ! 1 \<noteq> 0)) OR
     push_bit 2 (of_bool (states ! 2 \<noteq> 0)) OR push_bit 3 (of_bool (states ! 3 \<noteq> 0)) OR
     push_bit 4 (of_bool (states ! 4 \<noteq> 0)) OR push_bit 5 (of_bool (states ! 5 \<noteq> 0))"
  unfolding EncodeLEDStatesInBits_def upt_NUM_LEDS Let_def shifted_flag
  by (simp add: ac_simps)

lemma bit_shifted_flag:
  "bit (push_bit k (of_bool b) :: uint8_t) i = (b \<and> i = k \<and> k < 8)"
  by (cases b) (auto simp add: bit_push_bit_iff bit_1_iff bit_exp_iff)

lemma bit_Encode: "bit (EncodeLEDStatesInBits states) i = (i < 6 \<and> states ! i \<noteq> 0)"
proof -
  have "i < 6 \<longleftrightarrow> i = 0 \<or> i = 1 \<or> i = 2 \<or> i = 3 \<or> i = 4 \<or> i = 5"
    by presburger
  then show ?thesis
    unfolding Encode_explicit bit_or_iff bit_shifted_flag by auto
qed

lemma nth_Decode: "i < 6 \<Longrightarrow> DecodeLEDStatesFromBits bits ! i = (if bit bits i then 1 else 0)"
  unfolding Decode_explicit by (auto simp add: less_Suc_eq numeral_eq_Suc)

lemma length_Decode: "length (DecodeLEDStatesFromBits bits) = 6"
  unfolding Decode_explicit by simp

lemma Decode_Encode_normalises:
  assumes "length v = 6"
  shows "DecodeLEDStatesFromBits (EncodeLEDStatesInBits v) = map (\<lambda>b. if b \<noteq> 0 then 1 else 0) v"
  by (rule nth_equalityI) (simp_all add: assms length_Decode nth_Decode bit_Encode)

lemma Encode_Decode:
  assumes "x \<le> 63"
  shows "EncodeLEDStatesInBits (DecodeLEDStatesFromBits x) = x"
proof (rule bit_word_eqI)
  fix n assume "n < LENGTH(8)"
  have "x < 2 ^ 6" using assms by (simp add: word_le_nat_alt word_less_nat_alt)
  then have low: "x AND mask 6 = x" by (rule less_mask_eq)
  have hi: "m < 6" if "bit x m" for m
  proof -
    from that low have "bit (x AND mask 6) m" by simp
    then show ?thesis by (simp add: bit_and_iff bit_mask_iff)
  qed
  show "bit (EncodeLEDStatesInBits (DecodeLEDStatesFromBits x)) n = bit x n"
    using hi [of n] by (auto simp add: bit_Encode nth_Decode split: if_splits)
qed

lemma Encode_le_63: "EncodeLEDStatesInBits v \<le> 63"
proof -
  have "EncodeLEDStatesInBits v AND mask 6 = EncodeLEDStatesInBits v"
    by (rule bit_word_eqI) (auto simp add: bit_and_iff bit_mask_iff bit_Encode)
  then have "EncodeLEDStatesInBits v \<le> mask 6"
    by (metis word_and_le1)
  then show ?thesis by (simp add: mask_eq_exp_minus_1)
qed

text \<open>
  C1. The codec is a lossless bijection between the vectors of six booleans (each element
  \<^verbatim>\<open>VI_FALSE = 0\<close> or \<^verbatim>\<open>VI_TRUE = 1\<close>) and the integers 0..63: decoding an encoded
  vector gives the vector back, encoding a decoded integer of that range gives the integer
  back, and every encoded vector lies in the range.
\<close>

theorem codec_round_trip:
  assumes "length v = NUM_LEDS" and "list_all (\<lambda>b. b = 0 \<or> b = 1) v" and "x \<le> 63"
  shows "DecodeLEDStatesFromBits (EncodeLEDStatesInBits v) = v \<and>
         EncodeLEDStatesInBits v \<le> 63 \<and>
         EncodeLEDStatesInBits (DecodeLEDStatesFromBits x) = x \<and>
         length (DecodeLEDStatesFromBits x) = NUM_LEDS \<and>
         list_all (\<lambda>b. b = 0 \<or> b = 1) (DecodeLEDStatesFromBits x)"
proof -
  have "map (\<lambda>b. if b \<noteq> 0 then 1 else 0) v = v"
    using assms(2) by (induction v) auto
  then have "DecodeLEDStatesFromBits (EncodeLEDStatesInBits v) = v"
    using assms(1) by (simp add: Decode_Encode_normalises NUM_LEDS_def)
  moreover have "list_all (\<lambda>b. b = 0 \<or> b = 1) (DecodeLEDStatesFromBits x)"
    by (simp add: Decode_explicit)
  ultimately show ?thesis
    using assms(3) by (simp add: Encode_Decode length_Decode NUM_LEDS_def Encode_le_63)
qed

theorem codec_round_trip_witness:
  "length [1, 0, 1, 0, 0, 0 :: ViBoolean] = NUM_LEDS \<and>
   list_all (\<lambda>b. b = 0 \<or> b = 1) [1, 0, 1, 0, 0, 0 :: ViBoolean] \<and>
   (5 :: uint8_t) \<le> 63 \<and>
   DecodeLEDStatesFromBits (EncodeLEDStatesInBits [1, 0, 1, 0, 0, 0]) = [1, 0, 1, 0, 0, 0] \<and>
   EncodeLEDStatesInBits (DecodeLEDStatesFromBits 5) = 5"
proof -
  have a: "length [1, 0, 1, 0, 0, 0 :: ViBoolean] = NUM_LEDS"
    by (simp add: NUM_LEDS_def)
  have b: "list_all (\<lambda>b. b = 0 \<or> b = 1) [1, 0, 1, 0, 0, 0 :: ViBoolean]"
    by simp
  have c: "(5 :: uint8_t) \<le> 63"
    by simp
  from codec_round_trip [OF a b c] a b c show ?thesis
    by blast
qed

subsection \<open>Status decoding\<close>

lemma flag_test_is_bit: "(curStatus AND push_bit k 1 \<ge> 1) = bit (curStatus :: ViUInt32) k"
proof -
  have "(curStatus AND push_bit k 1 \<ge> 1) = (curStatus AND push_bit k 1 \<noteq> 0)"
    by (auto simp add: word_le_nat_alt Suc_le_eq unat_gt_0)
  also have "\<dots> = bit curStatus k"
    by (rule bit_iff_and_push_bit_not_eq_0 [symmetric])
  finally show ?thesis .
qed

lemma sublist_add_condition:
  "sublist t message \<Longrightarrow> sublist t (add_condition curStatus k text message)"
  by (auto simp add: add_condition_def sublist_append)

lemma add_condition_set:
  "bit curStatus k \<Longrightarrow> sublist text (add_condition curStatus k text message)"
  unfolding add_condition_def flag_test_is_bit by (simp add: sublist_append)

lemma add_condition_clear:
  "\<not> bit curStatus k \<Longrightarrow> add_condition curStatus k text message = message"
  unfolding add_condition_def flag_test_is_bit by simp

lemma status_message_interlock:
  assumes "bit curStatus 2"
  shows "sublist ''Interlock is Open'' (status_message curStatus)"
proof -
  have nz: "curStatus \<noteq> 0" using assms by auto
  define m2 where "m2 = add_condition curStatus 2 ''Interlock is Open''
      (add_condition curStatus 1 ''LLG not Connected''
        (if curStatus AND push_bit 0 1 \<ge> 1 then ''Box is Open'' else ''''))"
  define m6 where "m6 = add_condition curStatus 6 ''Invalid Box Setup''
      (add_condition curStatus 5 ''LED Overheated''
        (add_condition curStatus 4 ''Box Overheated''
          (add_condition curStatus 3 ''Using Default Adjustment'' m2)))"
  have "sublist ''Interlock is Open'' m2"
    unfolding m2_def using assms by (rule add_condition_set)
  then have sub: "sublist ''Interlock is Open'' m6"
    unfolding m6_def by (intro sublist_add_condition)
  then have "m6 \<noteq> []" by auto
  moreover have "status_message curStatus = (if length m6 = 0 then ''Unknown Status'' else m6)"
    using nz by (simp add: status_message_def Let_def m6_def m2_def)
  ultimately show ?thesis using sub by simp
qed

lemma status_message_unknown:
  assumes "curStatus \<noteq> 0" and "curStatus AND 127 = 0"
  shows "status_message curStatus = ''Unknown Status''"
proof -
  have "\<not> bit curStatus k" if "k < 7" for k
  proof
    assume "bit curStatus k"
    moreover have "(127 :: ViUInt32) = mask 7"
      by (simp add: mask_eq_exp_minus_1)
    then have "bit (127 :: ViUInt32) k"
      using that by (simp only: bit_mask_iff) simp
    ultimately have "bit (curStatus AND 127) k" by (simp add: bit_and_iff)
    with assms(2) show False by simp
  qed
  then have "\<not> bit curStatus 0" "\<not> bit curStatus 1" "\<not> bit curStatus 2" "\<not> bit curStatus 3"
    "\<not> bit curStatus 4" "\<not> bit curStatus 5" "\<not> bit curStatus 6"
    by simp_all
  then show ?thesis
    using assms(1) unfolding status_message_def Let_def flag_test_is_bit
    by (simp add: add_condition_clear)
qed

lemma status_message_nonempty: "status_message curStatus \<noteq> []"
  by (simp add: status_message_def Let_def)

text \<open>
  C7. The decoding of a status code is a total function of the code: code 0 gives the nominal
  message; a code with bit 2 set has the interlock condition in its message whatever its
  other bits are; a non-zero code with none of the seven recognised bits gives the one
  fallback message; and no code gives an empty message.
\<close>

theorem status_decoding:
  assumes "bit c 2" and "u \<noteq> 0" and "u AND 127 = 0"
  shows "status_message 0 = ''No Error'' \<and>
         sublist ''Interlock is Open'' (status_message c) \<and>
         status_message u = ''Unknown Status'' \<and>
         status_message x \<noteq> []"
  using assms
  by (simp add: status_message_interlock status_message_unknown status_message_nonempty)
     (simp add: status_message_def)

theorem status_decoding_witness:
  "bit (5 :: ViUInt32) 2 \<and> (128 :: ViUInt32) \<noteq> 0 \<and> (128 :: ViUInt32) AND 127 = 0 \<and>
   status_message 0 = ''No Error'' \<and>
   sublist ''Interlock is Open'' (status_message 5) \<and>
   status_message 5 = ''Box is Open, Interlock is Open'' \<and>
   status_message 128 = ''Unknown Status'' \<and>
   status_message 80 \<noteq> []"
proof -
  have a: "bit (5 :: ViUInt32) 2"
    by simp
  have b: "(128 :: ViUInt32) \<noteq> 0"
    by simp
  have c: "(128 :: ViUInt32) AND 127 = 0"
    by simp
  have d: "status_message 5 = ''Box is Open, Interlock is Open''"
    by (simp add: status_message_def add_condition_def)
  from status_decoding [OF a b c, of 80] a b c d show ?thesis
    by blast
qed

subsection \<open>Text handed to the host\<close>

lemma digit_not_NUL: "k < 10 \<Longrightarrow> char_of (48 + k :: nat) \<noteq> CHR 0x00"
  by (simp add: char_of_eq_iff take_bit_eq_mod)

lemma digits_no_NUL: "CHR 0x00 \<notin> set (digits n)"
proof (induction n rule: digits.induct)
  case (1 n)
  show ?case
  proof (cases "n < 10")
    case True
    then show ?thesis
      using digit_not_NUL [of n] by (subst digits.simps) simp
  next
    case False
    moreover have "n mod 10 < 10" by simp
    ultimately show ?thesis
      using "1.IH" digit_not_NUL [of "n mod 10"] by (subst digits.simps) simp
  qed
qed

lemma c_str_id: "CHR 0x00 \<notin> set s \<Longrightarrow> c_str s = s"
  by (auto simp add: c_str_def takeWhile_eq_all_conv)

lemma c_str_to_string [simp]: "c_str (to_string i) = to_string i"
  by (rule c_str_id) (simp add: to_string_def digits_no_NUL)

lemma c_str_put_long [simp]: "c_str (put_long i) = put_long i"
  by (simp add: put_long_def)

lemma c_str_put_ushort [simp]: "c_str (put_ushort v) = put_ushort v"
  by (simp add: put_ushort_def)

lemma length_digits_ge_2: "10 \<le> n \<Longrightarrow> 2 \<le> length (digits n)"
  by (subst digits.simps, subst digits.simps) simp

lemma length_c_str_put_uchar: "length (c_str (put_uchar m)) \<le> 1"
  by (simp add: c_str_def put_uchar_def)

lemma put_uchar_is_not_decimal: "c_str (put_uchar m) \<noteq> put_long (uint m)"
proof (cases "unat m < 10")
  case True
  have "char_of (unat m) \<noteq> (char_of (48 + unat m) :: char)"
    using True by (simp add: char_of_eq_iff take_bit_eq_mod) 
  then have "c_str [char_of (unat m)] \<noteq> [char_of (48 + unat m)]"
    by (simp add: c_str_def)
  moreover have "put_long (uint m) = [char_of (48 + unat m)]"
    using True by (simp add: put_long_def to_string_def digits.simps [of "unat m"])
  ultimately show ?thesis by (simp add: put_uchar_def)
next
  case False
  then have "2 \<le> length (digits (unat m))"
    by (intro length_digits_ge_2) simp
  then have "2 \<le> length (put_long (uint m))"
    by (simp add: put_long_def to_string_def)
  with length_c_str_put_uchar [of m] show ?thesis
    by (metis Suc_1 not_less_eq_eq)
qed

subsection \<open>The branches of the property handlers\<close>

lemmas fx_defs = called_def notify_def log_line_def LogMessage_def OnPropertyChanged_def hw_def

lemma OnState_get:
  assumes "parentHub s = Some h"
    and "IsDeviceConnected f (ChrolisDevice h) = (connected, d1)"
    and "GetLEDEnableStates f (ledStates s) d1 = ((err, v), d2)"
  shows "case OnState f pProp BeforeGet s of (rc, p, s') \<Rightarrow>
           rc = DEVICE_OK \<and> p = pProp\<lparr>pvalue := uint (EncodeLEDStatesInBits v)\<rparr> \<and>
           parentHub s' = Some (h\<lparr>ChrolisDevice := d2\<rparr>) \<and>
           ledStates s' = v \<and> ledBrightnesses s' = ledBrightnesses s \<and>
           changed (out s') = changed (out s) \<and>
           hwcalls (out s') = hwcalls (out s) @ [CallIsDeviceConnected, CallGetLEDEnableStates]"
  using assms by (simp add: OnState_def Let_def fx_defs)

lemma OnEnableStateChange_get:
  assumes "parentHub s = Some h"
    and "IsDeviceConnected f (ChrolisDevice h) = (connected, d1)"
    and "ledIndex < length (ledStates s)"
    and "GetSingleLEDEnableState f ledIndex (ledStates s ! ledIndex) d1 = ((err, v), d2)"
  shows "case OnEnableStateChange f pProp BeforeGet ledIndex s of (rc, p, s') \<Rightarrow>
           rc = DEVICE_OK \<and> p = pProp\<lparr>pvalue := uint v\<rparr> \<and>
           parentHub s' = Some (h\<lparr>ChrolisDevice := d2\<rparr>) \<and>
           ledStates s' = (ledStates s)[ledIndex := v] \<and> ledBrightnesses s' = ledBrightnesses s \<and>
           changed (out s') = changed (out s) \<and>
           hwcalls (out s') = hwcalls (out s) @
             [CallIsDeviceConnected, CallGetSingleLEDEnableState ledIndex]"
  using assms by (simp add: OnEnableStateChange_def Let_def fx_defs)

lemma OnPowerChange_get:
  assumes "parentHub s = Some h"
    and "IsDeviceConnected f (ChrolisDevice h) = (connected, d1)"
    and "ledIndex < length (ledBrightnesses s)"
    and "GetSingleLEDBrightnessState f ledIndex (ledBrightnesses s ! ledIndex) d1 = ((err, v), d2)"
  shows "case OnPowerChange f pProp BeforeGet ledIndex s of (rc, p, s') \<Rightarrow>
           rc = DEVICE_OK \<and> p = pProp\<lparr>pvalue := uint v\<rparr> \<and>
           parentHub s' = Some (h\<lparr>ChrolisDevice := d2\<rparr>) \<and>
           ledStates s' = ledStates s \<and> ledBrightnesses s' = (ledBrightnesses s)[ledIndex := v] \<and>
           changed (out s') = changed (out s) \<and>
           hwcalls (out s') = hwcalls (out s) @
             [CallIsDeviceConnected, CallGetSingleLEDBrightnessState ledIndex]"
  using assms by (simp add: OnPowerChange_def Let_def fx_defs)

lemma GetOpen_hub:
  assumes "parentHub s = Some h"
    and "IsDeviceConnected f (ChrolisDevice h) = (connected, d1)"
    and "GetShutterState f open d1 = ((err, v), d2)"
  shows "case GetOpen f open s of (rc, open', s') \<Rightarrow>
           changed (out s') = changed (out s) \<and>
           (if connected then
              rc = DEVICE_OK \<and> open' = v \<and> parentHub s' = Some (h\<lparr>ChrolisDevice := d2\<rparr>) \<and>
              hwcalls (out s') = hwcalls (out s) @ [CallIsDeviceConnected, CallGetShutterState]
            else
              rc = ERR_CHROLIS_NOT_AVAIL \<and> open' = open \<and>
              parentHub s' = Some (h\<lparr>ChrolisDevice := d1\<rparr>) \<and>
              hwcalls (out s') = hwcalls (out s) @ [CallIsDeviceConnected])"
  using assms by (simp add: GetOpen_def Let_def fx_defs)

lemma OnState_set_no_hub:
  assumes "parentHub s = None"
  shows "case OnState f pProp AfterSet s of (rc, p, s') \<Rightarrow>
           rc = ERR_HUB_NOT_AVAILABLE \<and> p = pProp \<and> parentHub s' = None \<and>
           ledStates s' = ledStates s \<and> ledBrightnesses s' = ledBrightnesses s \<and>
           hwcalls (out s') = hwcalls (out s) \<and>
           changed (out s') = changed (out s) @
             [(StateDevice, c_str (pname pProp), c_str (put_uchar (EncodeLEDStatesInBits (ledStates s))))]"
  using assms by (simp add: OnState_def Let_def fx_defs)

lemma OnEnableStateChange_set_no_hub:
  assumes "parentHub s = None"
  shows "case OnEnableStateChange f pProp AfterSet ledIndex s of (rc, p, s') \<Rightarrow>
           rc = ERR_HUB_NOT_AVAILABLE \<and> p = pProp \<and> parentHub s' = None \<and>
           ledStates s' = ledStates s \<and> ledBrightnesses s' = ledBrightnesses s \<and>
           hwcalls (out s') = hwcalls (out s) \<and>
           changed (out s') = changed (out s) @
             [(StateDevice, c_str (pname pProp), put_ushort (ledStates s ! ledIndex))]"
  using assms by (simp add: OnEnableStateChange_def Let_def fx_defs)

lemma OnPowerChange_set_no_hub:
  assumes "parentHub s = None"
  shows "case OnPowerChange f pProp AfterSet ledIndex s of (rc, p, s') \<Rightarrow>
           rc = ERR_HUB_NOT_AVAILABLE \<and> p = pProp \<and> parentHub s' = None \<and>
           ledStates s' = ledStates s \<and> ledBrightnesses s' = ledBrightnesses s \<and>
           hwcalls (out s') = hwcalls (out s) \<and>
           changed (out s') = changed (out s) @
             [(StateDevice, c_str (pname pProp), put_ushort (ledBrightnesses s ! ledIndex))]"
  using assms by (simp add: OnPowerChange_def Let_def fx_defs)

lemma OnState_set_out_of_range:
  assumes "parentHub s = Some h"
    and "IsDeviceConnected f (ChrolisDevice h) = (True, d1)"
    and "pvalue pProp < 0 \<or> 63 < pvalue pProp"
  shows "case OnState f pProp AfterSet s of (rc, p, s') \<Rightarrow>
           rc = ERR_PARAM_NOT_VALID \<and> p = pProp \<and> parentHub s' = Some (h\<lparr>ChrolisDevice := d1\<rparr>) \<and>
           ledStates s' = ledStates s \<and> ledBrightnesses s' = ledBrightnesses s \<and>
           hwcalls (out s') = hwcalls (out s) @ [CallIsDeviceConnected] \<and>
           changed (out s') = changed (out s) @
             [(StateDevice, c_str (pname pProp), c_str (put_uchar (EncodeLEDStatesInBits (ledStates s))))]"
  using assms by (auto simp add: OnState_def Let_def fx_defs NUM_LEDS_def)

lemma OnState_set_failed:
  assumes "parentHub s = Some h"
    and "IsDeviceConnected f (ChrolisDevice h) = (True, d1)"
    and "0 \<le> pvalue pProp" and "pvalue pProp \<le> 63"
    and "SetLEDEnableStates f (DecodeLEDStatesFromBits (word_of_int (pvalue pProp))) d1 = (err, d2)"
    and "err \<noteq> DEVICE_OK"
    and "GetLEDEnableStates f (ledStates s) d2 = ((err2, v), d3)"
  shows "case OnState f pProp AfterSet s of (rc, p, s') \<Rightarrow>
           rc = err \<and> p = pProp \<and>
           ledBrightnesses s' = ledBrightnesses s \<and>
           (if err = ERR_CHROLIS_NOT_AVAIL then
              parentHub s' = Some (h\<lparr>ChrolisDevice := d2\<rparr>) \<and>
              ledStates s' = ledStates s \<and>
              changed (out s') = changed (out s) \<and>
              hwcalls (out s') = hwcalls (out s) @
                [CallIsDeviceConnected,
                 CallSetLEDEnableStates (DecodeLEDStatesFromBits (word_of_int (pvalue pProp)))]
            else
              parentHub s' = Some (h\<lparr>ChrolisDevice := d3\<rparr>) \<and>
              ledStates s' = v \<and>
              changed (out s') = changed (out s) @
                [(StateDevice, c_str (pname pProp), c_str (put_uchar (EncodeLEDStatesInBits v)))] \<and>
              hwcalls (out s') = hwcalls (out s) @
                [CallIsDeviceConnected,
                 CallSetLEDEnableStates (DecodeLEDStatesFromBits (word_of_int (pvalue pProp))),
                 CallGetLEDEnableStates])"
  using assms by (simp add: OnState_def Let_def fx_defs NUM_LEDS_def)

lemma OnEnableStateChange_set_failed:
  assumes "parentHub s = Some h"
    and "IsDeviceConnected f (ChrolisDevice h) = (True, d1)"
    and "ledIndex < length (ledStates s)"
    and "SetSingleLEDEnableState f ledIndex (word_of_int (pvalue pProp)) d1 = (err, d2)"
    and "err \<noteq> DEVICE_OK"
    and "GetSingleLEDEnableState f ledIndex (ledStates s ! ledIndex) d2 = ((err2, v), d3)"
  shows "case OnEnableStateChange f pProp AfterSet ledIndex s of (rc, p, s') \<Rightarrow>
           rc = err \<and> p = pProp \<and> parentHub s' = Some (h\<lparr>ChrolisDevice := d3\<rparr>) \<and>
           ledStates s' = (ledStates s)[ledIndex := v] \<and> ledBrightnesses s' = ledBrightnesses s \<and>
           changed (out s') = changed (out s) @ [(StateDevice, c_str (pname pProp), put_ushort v)] \<and>
           hwcalls (out s') = hwcalls (out s) @
             [CallIsDeviceConnected,
              CallSetSingleLEDEnableState ledIndex (word_of_int (pvalue pProp)),
              CallGetSingleLEDEnableState ledIndex]"
  using assms by (simp add: OnEnableStateChange_def Let_def fx_defs)

lemma OnPowerChange_set_failed:
  assumes "parentHub s = Some h"
    and "IsDeviceConnected f (ChrolisDevice h) = (True, d1)"
    and "ledIndex < length (ledBrightnesses s)"
    and "SetSingleLEDBrightnessState f ledIndex (word_of_int (pvalue pProp)) d1 = (err, d2)"
    and "err \<noteq> DEVICE_OK"
    and "GetSingleLEDBrightnessState f ledIndex (ledBrightnesses s ! ledIndex) d2 = ((err2, v), d3)"
  shows "case OnPowerChange f pProp AfterSet ledIndex s of (rc, p, s') \<Rightarrow>
           rc = err \<and> p = pProp \<and> parentHub s' = Some (h\<lparr>ChrolisDevice := d3\<rparr>) \<and>
           ledStates s' = ledStates s \<and> ledBrightnesses s' = (ledBrightnesses s)[ledIndex := v] \<and>
           changed (out s') = changed (out s) @ [(StateDevice, c_str (pname pProp), put_ushort v)] \<and>
           hwcalls (out s') = hwcalls (out s) @
             [CallIsDeviceConnected,
              CallSetSingleLEDBrightnessState ledIndex (word_of_int (pvalue pProp)),
              CallGetSingleLEDBrightnessState ledIndex]"
  using assms by (simp add: OnPowerChange_def Let_def fx_defs)

lemma OnState_set_ok:
  assumes "parentHub s = Some h"
    and "IsDeviceConnected f (ChrolisDevice h) = (True, d1)"
    and "0 \<le> pvalue pProp" and "pvalue pProp \<le> 63"
    and "SetLEDEnableStates f (DecodeLEDStatesFromBits (word_of_int (pvalue pProp))) d1 = (DEVICE_OK, d2)"
  shows "case OnState f pProp AfterSet s of (rc, p, s') \<Rightarrow>
           rc = DEVICE_OK \<and> p = pProp \<and> parentHub s' = Some (h\<lparr>ChrolisDevice := d2\<rparr>) \<and>
           ledStates s' = ledStates s \<and> ledBrightnesses s' = ledBrightnesses s \<and>
           changed (out s') = changed (out s) @
             [(StateDevice, c_str (pname pProp), put_long (pvalue pProp))] \<and>
           hwcalls (out s') = hwcalls (out s) @
             [CallIsDeviceConnected,
              CallSetLEDEnableStates (DecodeLEDStatesFromBits (word_of_int (pvalue pProp)))]"
  using assms by (simp add: OnState_def Let_def fx_defs NUM_LEDS_def)

lemma OnEnableStateChange_set_ok:
  assumes "parentHub s = Some h"
    and "IsDeviceConnected f (ChrolisDevice h) = (True, d1)"
    and "ledIndex < length (ledStates s)"
    and "SetSingleLEDEnableState f ledIndex (word_of_int (pvalue pProp)) d1 = (DEVICE_OK, d2)"
  shows "case OnEnableStateChange f pProp AfterSet ledIndex s of (rc, p, s') \<Rightarrow>
           rc = DEVICE_OK \<and> p = pProp \<and> parentHub s' = Some (h\<lparr>ChrolisDevice := d2\<rparr>) \<and>
           ledStates s' = (ledStates s)[ledIndex := word_of_int (pvalue pProp)] \<and>
           ledBrightnesses s' = ledBrightnesses s \<and>
           changed (out s') = changed (out s) @
             [(StateDevice, c_str (pname pProp), put_ushort (word_of_int (pvalue pProp)))] \<and>
           hwcalls (out s') = hwcalls (out s) @
             [CallIsDeviceConnected, CallSetSingleLEDEnableState ledIndex (word_of_int (pvalue pProp))]"
  using assms by (simp add: OnEnableStateChange_def Let_def fx_defs)

lemma OnPowerChange_set_ok:
  assumes "parentHub s = Some h"
    and "IsDeviceConnected f (ChrolisDevice h) = (True, d1)"
    and "ledIndex < length (ledBrightnesses s)"
    and "SetSingleLEDBrightnessState f ledIndex (word_of_int (pvalue pProp)) d1 = (DEVICE_OK, d2)"
  shows "case OnPowerChange f pProp AfterSet ledIndex s of (rc, p, s') \<Rightarrow>
           rc = DEVICE_OK \<and> p = pProp \<and> parentHub s' = Some (h\<lparr>ChrolisDevice := d2\<rparr>) \<and>
           ledStates s' = ledStates s \<and>
           ledBrightnesses s' = (ledBrightnesses s)[ledIndex := word_of_int (pvalue pProp)] \<and>
           changed (out s') = changed (out s) @
             [(StateDevice, c_str (pname pProp), put_ushort (word_of_int (pvalue pProp)))] \<and>
           hwcalls (out s') = hwcalls (out s) @
             [CallIsDeviceConnected, CallSetSingleLEDBrightnessState ledIndex (word_of_int (pvalue pProp))]"
  using assms by (simp add: OnPowerChange_def Let_def fx_defs)

end
